theory Spec2Isabelle
  imports Complex_Main
begin

section \<open>Flight Plan Assistant\<close>

text \<open>
  A shallow embedding of \<^verbatim>\<open>Flight_Plan_Assistant.py\<close>.

  Numbers. The program computes with Python \<^verbatim>\<open>int\<close> and \<^verbatim>\<open>float\<close> values. An
  \<^verbatim>\<open>int\<close> is an \<^typ>\<open>int\<close>. A \<^verbatim>\<open>float\<close> is modelled by the rational number it
  denotes, with exact arithmetic: every finite double is a rational, and the comparisons
  the program branches on are exact on doubles. The rounding of a double operation, overflow
  to an infinity, the infinities and NaN are outside this model.

  Text. A \<^verbatim>\<open>str\<close> is a \<^typ>\<open>string\<close>; the strings of this program are ASCII.
  What a Python built-in raises is a value of \<open>py_error\<close>.
\<close>

subsection \<open>Built-ins of Python used by the program\<close>

datatype py_error = ValueError | IndexError

text \<open>\<^verbatim>\<open>str(n)\<close> and \<^verbatim>\<open>f"{n}"\<close> for an \<^verbatim>\<open>int\<close>: decimal digits, a minus sign when negative.\<close>

definition digit_char :: "nat \<Rightarrow> char" where
  "digit_char d = char_of (48 + d)"

fun str_nat :: "nat \<Rightarrow> string" where
  "str_nat n = (if n < 10 then [digit_char n] else str_nat (n div 10) @ [digit_char (n mod 10)])"

declare str_nat.simps [simp del]

definition py_str_int :: "int \<Rightarrow> string" where
  "py_str_int i = (if i < 0 then CHR ''-'' # str_nat (nat (- i)) else str_nat (nat i))"

text \<open>\<^verbatim>\<open>int(x)\<close> for a \<^verbatim>\<open>float\<close>: truncation toward zero.\<close>

definition py_int :: "rat \<Rightarrow> int" where
  "py_int x = (if x < 0 then \<lceil>x\<rceil> else \<lfloor>x\<rfloor>)"

text \<open>
  \<^verbatim>\<open>float(s)\<close>, on the spellings the program feeds it: an optional minus sign and decimal
  digits. Any other text is read as the \<^verbatim>\<open>ValueError\<close> that Python raises for text that
  is no number (Python's further spellings of a number do not occur in the text parsed here).
\<close>

definition digit_of :: "char \<Rightarrow> nat option" where
  "digit_of c = (let k = (of_char c :: nat) in if 48 \<le> k \<and> k \<le> 57 then Some (k - 48) else None)"

fun read_digits :: "nat \<Rightarrow> string \<Rightarrow> nat option" where
  "read_digits acc [] = Some acc"
| "read_digits acc (c # cs) =
     (case digit_of c of None \<Rightarrow> None | Some d \<Rightarrow> read_digits (10 * acc + d) cs)"

definition py_float :: "string \<Rightarrow> py_error + rat" where
  "py_float s =
     (case s of
        [] \<Rightarrow> Inl ValueError
      | c # cs \<Rightarrow>
          if c = CHR ''-'' then
            (if cs = [] then Inl ValueError
             else case read_digits 0 cs of
                    None \<Rightarrow> Inl ValueError
                  | Some n \<Rightarrow> Inr (- of_nat n))
          else (case read_digits 0 s of
                  None \<Rightarrow> Inl ValueError
                | Some n \<Rightarrow> Inr (of_nat n)))"

text \<open>\<^verbatim>\<open>p in s\<close> for two strings: \<open>p\<close> occurs in \<open>s\<close> as a contiguous piece.\<close>

fun py_in :: "string \<Rightarrow> string \<Rightarrow> bool" where
  "py_in p [] = (p = [])"
| "py_in p (c # cs) = (take (length p) (c # cs) = p \<or> py_in p cs)"

text \<open>\<^verbatim>\<open>s.split()\<close>: the maximal runs of characters that are not white space.\<close>

definition is_space :: "char \<Rightarrow> bool" where
  "is_space c = (let k = (of_char c :: nat) in (9 \<le> k \<and> k \<le> 13) \<or> (28 \<le> k \<and> k \<le> 32))"

fun split_from :: "string \<Rightarrow> string \<Rightarrow> string list" where
  "split_from w [] = (if w = [] then [] else [w])"
| "split_from w (c # cs) =
     (if is_space c then (if w = [] then split_from [] cs else w # split_from [] cs)
      else split_from (w @ [c]) cs)"

definition py_split :: "string \<Rightarrow> string list" where
  "py_split s = split_from [] s"

text \<open>\<^verbatim>\<open>xs[i]\<close> for a list and an index that is not negative.\<close>

definition py_index :: "'a list \<Rightarrow> nat \<Rightarrow> py_error + 'a" where
  "py_index xs i = (if i < length xs then Inr (xs ! i) else Inl IndexError)"

text \<open>\<^verbatim>\<open>s.upper()\<close> on ASCII text.\<close>

definition upper_char :: "char \<Rightarrow> char" where
  "upper_char c =
     (let k = (of_char c :: nat) in if 97 \<le> k \<and> k \<le> 122 then char_of (k - 32) else c)"

definition py_upper :: "string \<Rightarrow> string" where
  "py_upper s = map upper_char s"

text \<open>
  The format specifications \<^verbatim>\<open>:.1f\<close> and \<^verbatim>\<open>:.2f\<close>: the value rounded to \<open>p\<close> decimals,
  a tie going to the even digit, written with exactly \<open>p\<close> digits after the point.
\<close>

definition round_half_even :: "rat \<Rightarrow> int" where
  "round_half_even x =
     (let f = \<lfloor>x\<rfloor>; d = x - of_int f
      in if d < 1 / 2 then f else if 1 / 2 < d then f + 1 else if even f then f else f + 1)"

definition rjust :: "nat \<Rightarrow> char \<Rightarrow> string \<Rightarrow> string" where
  "rjust w c s = replicate (w - length s) c @ s"


definition format_f :: "nat \<Rightarrow> rat \<Rightarrow> string" where
  "format_f p x =
     (let n = nat (round_half_even (\<bar>x\<bar> * 10 ^ p))
      in (if x < 0 then ''-'' else '''') @ str_nat (n div 10 ^ p) @ ''.''
           @ rjust p (CHR ''0'') (str_nat (n mod 10 ^ p)))"

subsection \<open>The aircraft database\<close>

record aircraft =
  name :: string
  cruise_speed :: int
  fuel_burn :: rat
  max_fuel :: int
  seats :: int

definition C172 :: aircraft where
  "C172 = \<lparr>name = ''Cessna 172'', cruise_speed = 120, fuel_burn = 17 / 2, max_fuel = 56, seats = 4\<rparr>"

definition PA28 :: aircraft where
  "PA28 = \<lparr>name = ''Piper Cherokee'', cruise_speed = 130, fuel_burn = 9, max_fuel = 50, seats = 4\<rparr>"

definition SR22 :: aircraft where
  "SR22 = \<lparr>name = ''Cirrus SR22'', cruise_speed = 185, fuel_burn = 15, max_fuel = 92, seats = 5\<rparr>"

text \<open>A \<^verbatim>\<open>dict\<close> iterates in insertion order, so the database is an association list.\<close>

definition aircraft_db :: "(string \<times> aircraft) list" where
  "aircraft_db = [(''C172'', C172), (''PA28'', PA28), (''SR22'', SR22)]"

subsection \<open>Flight math\<close>

definition calculate_flight_time :: "rat \<Rightarrow> rat \<Rightarrow> rat \<Rightarrow> string" where
  "calculate_flight_time distance speed headwind =
     (let actual_speed = speed - headwind in
      if actual_speed \<le> 0 then ''Error: Headwind too strong!''
      else
        let time_hours = distance / actual_speed;
            hours = py_int time_hours;
            minutes = py_int ((time_hours - of_int hours) * 60)
        in py_str_int hours @ '' hours '' @ py_str_int minutes @ '' minutes'')"

definition calculate_fuel_needed :: "rat \<Rightarrow> rat \<Rightarrow> rat \<Rightarrow> rat" where
  "calculate_fuel_needed time_hours burn reserve = (time_hours + reserve) * burn"

definition check_fuel_sufficiency :: "aircraft \<Rightarrow> rat \<Rightarrow> string" where
  "check_fuel_sufficiency a fuel_needed =
     (if fuel_needed \<le> of_int (max_fuel a)
      then ''Fuel OK: '' @ format_f 1 fuel_needed @ '' gal needed, ''
             @ py_str_int (max_fuel a) @ '' gal capacity''
      else ''Fuel warning: '' @ format_f 1 fuel_needed @ '' gal needed, but only ''
             @ py_str_int (max_fuel a) @ '' gal capacity'')"

definition calculate_cost :: "rat \<Rightarrow> rat \<Rightarrow> rat" where
  "calculate_cost fuel_needed fuel_price = fuel_needed * fuel_price"

subsection \<open>The flight plan report\<close>

text \<open>
  The lines 89 to 101 of \<^verbatim>\<open>display_flight_plan\<close>: the flight time as text, and the fuel,
  the fuel check and the cost derived from the text.
\<close>

record plan_values =
  flight_time :: string
  fuel_needed :: rat
  fuel_check :: string
  cost :: rat

definition flight_plan_calculations ::
  "aircraft \<Rightarrow> rat \<Rightarrow> rat \<Rightarrow> rat \<Rightarrow> py_error + plan_values" where
  "flight_plan_calculations a distance headwind fuel_price =
     (let ft = calculate_flight_time distance (of_int (cruise_speed a)) headwind in
      if \<not> py_in ''Error'' ft then
        (let time_parts = py_split ft in
         case py_index time_parts 0 of
           Inl e \<Rightarrow> Inl e
         | Inr part \<Rightarrow>
             (case py_float part of
                Inl e \<Rightarrow> Inl e
              | Inr hours \<Rightarrow>
                  let fuel = calculate_fuel_needed hours (fuel_burn a) 1
                  in Inr \<lparr>flight_time = ft, fuel_needed = fuel,
                          fuel_check = check_fuel_sufficiency a fuel,
                          cost = calculate_cost fuel fuel_price\<rparr>))
      else Inr \<lparr>flight_time = ft, fuel_needed = 0, fuel_check = ''N/A'', cost = 0\<rparr>)"

text \<open>The lines 115 to 120: the remark on the wind.\<close>

definition wind_remark :: "rat \<Rightarrow> string" where
  "wind_remark headwind =
     (if 20 < headwind then CHR 0x0A # ''Strong headwind - consider delaying if possible''
      else if headwind < - 10 then CHR 0x0A # ''Favorable tailwind - good flying conditions!''
      else CHR 0x0A # ''Normal wind conditions'')"

text \<open>
  The report itself. Its result is the list of the texts handed to \<^verbatim>\<open>print\<close>, in order
  (the prompts of \<^verbatim>\<open>input\<close> are not in it), or the error that ends the program.
  \<open>typed\<close> is the line typed for the aircraft code. \<open>numbers\<close> is what the three
  \<^verbatim>\<open>float(input(...))\<close> of the \<^verbatim>\<open>try\<close> block give: the distance, the headwind and the fuel
  price, or \<open>None\<close> when one of them raised. \<open>repr\<close> is Python's \<^verbatim>\<open>repr\<close> of a float, the
  text of \<^verbatim>\<open>{distance}\<close>: it depends on the binary representation and is a parameter.
\<close>

definition summary_lines :: "(rat \<Rightarrow> string) \<Rightarrow> aircraft \<Rightarrow> rat \<Rightarrow> plan_values \<Rightarrow> string list" where
  "summary_lines repr a distance v =
     [CHR 0x0A # replicate 40 (CHR ''=''),
      ''FLIGHT PLAN SUMMARY'',
      replicate 40 (CHR ''=''),
      ''Aircraft: '' @ name a,
      ''Distance: '' @ repr distance @ '' nautical miles'',
      ''Flight Time: '' @ flight_time v,
      ''Fuel Required: '' @ format_f 1 (fuel_needed v) @ '' gallons'',
      ''Fuel Check: '' @ fuel_check v,
      ''Estimated Cost: $'' @ format_f 2 (cost v)]"

definition display_flight_plan ::
  "(rat \<Rightarrow> string) \<Rightarrow> string \<Rightarrow> (rat \<times> rat \<times> rat) option \<Rightarrow> py_error + string list" where
  "display_flight_plan repr typed numbers =
     (let listing = [''=== Flight Plan Assistant ==='' @ [CHR 0x0A], ''Available Aircraft:'']
                      @ map (\<lambda>(code, plane). ''  '' @ code @ '': '' @ name plane) aircraft_db;
          choice = py_upper typed
      in case map_of aircraft_db choice of
           None \<Rightarrow> Inr (listing @ [''Sorry, aircraft not found!''])
         | Some a \<Rightarrow>
             let selected = listing @ [CHR 0x0A # ''Selected: '' @ name a]
             in (case numbers of
                   None \<Rightarrow> Inr (selected @ [''Please enter valid numbers!''])
                 | Some (distance, headwind, fuel_price) \<Rightarrow>
                     (case flight_plan_calculations a distance headwind fuel_price of
                        Inl e \<Rightarrow> Inl e
                      | Inr v \<Rightarrow>
                          Inr (selected @ summary_lines repr a distance v
                                 @ [wind_remark headwind]))))"

subsection \<open>The aircraft comparison report\<close>




section \<open>Properties\<close>

subsection \<open>Digits, parsing and splitting\<close>

lemma digit_of_digit_char: "d < 10 \<Longrightarrow> digit_of (digit_char d) = Some d"
  by (simp add: digit_of_def digit_char_def)

lemma of_char_digit_char: "d < 10 \<Longrightarrow> (of_char (digit_char d) :: nat) = 48 + d"
  by (simp add: digit_char_def)

lemma digit_char_not_space: "d < 10 \<Longrightarrow> \<not> is_space (digit_char d)"
  by (simp add: is_space_def of_char_digit_char)

lemma digit_char_not_E: "d < 10 \<Longrightarrow> digit_char d \<noteq> CHR ''E''"
proof
  assume d: "d < 10" and "digit_char d = CHR ''E''"
  then have "(of_char (digit_char d) :: nat) = of_char (CHR ''E'')" by simp
  with d show False by (simp add: of_char_digit_char)
qed

lemma digit_char_not_minus: "d < 10 \<Longrightarrow> digit_char d \<noteq> CHR ''-''"
proof
  assume d: "d < 10" and "digit_char d = CHR ''-''"
  then have "(of_char (digit_char d) :: nat) = of_char (CHR ''-'')" by simp
  with d show False by (simp add: of_char_digit_char)
qed


lemma str_nat_digits: "c \<in> set (str_nat n) \<Longrightarrow> \<exists>d<10. c = digit_char d"
proof (induction n rule: str_nat.induct)
  case (1 n)
  show ?case
  proof (cases "n < 10")
    case True
    with "1.prems" have "c = digit_char n" by (simp add: str_nat.simps [of n])
    with True show ?thesis by blast
  next
    case False
    with "1.prems" have "c \<in> set (str_nat (n div 10)) \<or> c = digit_char (n mod 10)"
      by (auto simp: str_nat.simps [of n])
    then show ?thesis
    proof
      assume "c \<in> set (str_nat (n div 10))"
      with False "1.IH" show ?thesis by simp
    next
      assume "c = digit_char (n mod 10)"
      moreover have "n mod 10 < 10" by simp
      ultimately show ?thesis by blast
    qed
  qed
qed

lemma str_nat_not_Nil: "str_nat n \<noteq> []"
  by (subst str_nat.simps) simp

lemma read_digits_snoc:
  "read_digits acc (cs @ [c]) =
     (case read_digits acc cs of
        None \<Rightarrow> None
      | Some a \<Rightarrow> (case digit_of c of None \<Rightarrow> None | Some d \<Rightarrow> Some (10 * a + d)))"
  by (induction cs arbitrary: acc) (simp_all split: option.splits)

lemma read_digits_str_nat: "read_digits 0 (str_nat n) = Some n"
proof (induction n rule: str_nat.induct)
  case (1 n)
  show ?case
  proof (cases "n < 10")
    case True
    then show ?thesis by (simp add: str_nat.simps [of n] digit_of_digit_char)
  next
    case False
    have "n mod 10 < 10" by simp
    with False "1.IH" show ?thesis
      by (simp add: str_nat.simps [of n] read_digits_snoc digit_of_digit_char)
  qed
qed


lemma py_float_str_nat: "py_float (str_nat n) = Inr (of_nat n)"
proof (cases "str_nat n")
  case Nil
  then show ?thesis by (simp add: str_nat_not_Nil)
next
  case (Cons c cs)
  then have "c \<in> set (str_nat n)" by simp
  from str_nat_digits [OF this] obtain d where "d < 10" "c = digit_char d" by auto
  then have nm: "c \<noteq> CHR ''-''" by (simp add: digit_char_not_minus)
  have rd: "read_digits 0 (c # cs) = Some n"
    using read_digits_str_nat [of n] unfolding Cons .
  have "py_float (c # cs) = Inr (of_nat n)"
    unfolding py_float_def using nm rd by simp
  then show ?thesis unfolding Cons .
qed

lemma py_float_str_int: "py_float (py_str_int i) = Inr (of_int i)"
proof (cases "i < 0")
  case True
  then have "of_nat (nat (- i)) = - (of_int i :: rat)" by simp
  with True show ?thesis
    by (simp add: py_str_int_def py_float_def str_nat_not_Nil read_digits_str_nat)
next
  case False
  then show ?thesis by (simp add: py_str_int_def py_float_str_nat)
qed

lemma py_in_set: "py_in p s \<Longrightarrow> set p \<subseteq> set s"
proof (induction s)
  case Nil
  then show ?case by simp
next
  case (Cons c cs)
  from Cons.prems have "take (length p) (c # cs) = p \<or> py_in p cs"
    by (simp only: py_in.simps)
  then show ?case
  proof
    assume eq: "take (length p) (c # cs) = p"
    have "set (take (length p) (c # cs)) \<subseteq> set (c # cs)" by (rule set_take_subset)
    then show ?thesis unfolding eq .
  next
    assume "py_in p cs"
    then have "set p \<subseteq> set cs" by (rule Cons.IH)
    then show ?thesis by auto
  qed
qed

lemma str_int_chars:
  assumes "c \<in> set (py_str_int i)"
  shows "\<not> is_space c \<and> c \<noteq> CHR ''E''"
proof -
  from assms have "c = CHR ''-'' \<or> (\<exists>n. c \<in> set (str_nat n))"
    by (auto simp: py_str_int_def split: if_splits)
  then show ?thesis
  proof
    assume "c = CHR ''-''"
    then show ?thesis by (simp add: is_space_def)
  next
    assume "\<exists>n. c \<in> set (str_nat n)"
    then obtain n where "c \<in> set (str_nat n)" ..
    from str_nat_digits [OF this] obtain d where "d < 10" "c = digit_char d" by auto
    then show ?thesis by (simp add: digit_char_not_space digit_char_not_E)
  qed
qed

lemma str_int_not_Nil: "py_str_int i \<noteq> []"
  by (simp add: py_str_int_def str_nat_not_Nil)

lemma split_from_word:
  "\<forall>c\<in>set v. \<not> is_space c \<Longrightarrow> split_from w (v @ rest) = split_from (w @ v) rest"
proof (induction v arbitrary: w)
  case Nil
  show ?case by simp
next
  case (Cons a v)
  then have a: "\<not> is_space a" and v: "\<forall>c\<in>set v. \<not> is_space c" by simp_all
  have "split_from w ((a # v) @ rest) = split_from (w @ [a]) (v @ rest)"
    using a by simp
  also have "\<dots> = split_from ((w @ [a]) @ v) rest"
    using Cons.IH [OF v] .
  finally show ?case by simp
qed

lemma split_flight_time:
  "py_split (py_str_int h @ '' hours '' @ py_str_int m @ '' minutes'')
     = [py_str_int h, ''hours'', py_str_int m, ''minutes'']"
proof -
  have sp: "is_space (CHR '' '')" by (simp add: is_space_def)
  have h: "\<forall>c\<in>set (py_str_int h). \<not> is_space c" using str_int_chars by simp
  have m: "\<forall>c\<in>set (py_str_int m). \<not> is_space c" using str_int_chars by simp
  have w1: "\<forall>c\<in>set ''hours''. \<not> is_space c" by (simp add: is_space_def)
  have w2: "\<forall>c\<in>set ''minutes''. \<not> is_space c" by (simp add: is_space_def)
  have 4: "split_from [] ''minutes'' = [''minutes'']"
    using split_from_word [OF w2, of "[]" "[]"] by simp
  have 3: "split_from [] (py_str_int m @ '' minutes'') = [py_str_int m, ''minutes'']"
    using split_from_word [OF m, of "[]" "'' minutes''"] sp 4 by (simp add: str_int_not_Nil)
  have 2: "split_from [] (''hours '' @ py_str_int m @ '' minutes'')
             = [''hours'', py_str_int m, ''minutes'']"
    using split_from_word [OF w1, of "[]" "CHR '' '' # py_str_int m @ '' minutes''"] sp 3
    by simp
  have 1: "split_from [] (py_str_int h @ CHR '' '' # ''hours '' @ py_str_int m @ '' minutes'')
             = [py_str_int h, ''hours'', py_str_int m, ''minutes'']"
    using split_from_word [OF h, of "[]" "CHR '' '' # ''hours '' @ py_str_int m @ '' minutes''"] sp 2
    by (simp add: str_int_not_Nil)
  then show ?thesis by (simp add: py_split_def)
qed

lemma flight_time_no_Error:
  "\<not> py_in ''Error'' (py_str_int h @ '' hours '' @ py_str_int m @ '' minutes'')"
proof
  assume "py_in ''Error'' (py_str_int h @ '' hours '' @ py_str_int m @ '' minutes'')"
  then have "set ''Error'' \<subseteq> set (py_str_int h @ '' hours '' @ py_str_int m @ '' minutes'')"
    by (rule py_in_set)
  then have "CHR ''E'' \<in> set (py_str_int h) \<or> CHR ''E'' \<in> set (py_str_int m)"
    by auto
  then show False using str_int_chars by auto
qed

subsection \<open>Formatting to a fixed number of decimals\<close>

lemma str_nat_small: "n < 10 \<Longrightarrow> str_nat n = [digit_char n]"
  by (subst str_nat.simps) simp

lemma format_1f_shape:
  "format_f 1 x = (if x < 0 then ''-'' else '''')
      @ str_nat (nat (round_half_even (\<bar>x\<bar> * 10)) div 10) @ ''.''
      @ [digit_char (nat (round_half_even (\<bar>x\<bar> * 10)) mod 10)]"
  by (simp add: format_f_def Let_def rjust_def str_nat_small)

lemma str_nat_all_digits: "c \<in> set (str_nat n) \<Longrightarrow> digit_of c \<noteq> None"
proof -
  assume "c \<in> set (str_nat n)"
  from str_nat_digits [OF this] obtain d where "d < 10" "c = digit_char d" by auto
  then show ?thesis by (simp add: digit_of_digit_char)
qed

lemma round_half_even_near: "\<bar>of_int (round_half_even x) - x\<bar> \<le> 1 / 2"
proof -
  define f where "f = \<lfloor>x\<rfloor>"
  define d where "d = x - of_int f"
  define r where "r = round_half_even x"
  have d0: "0 \<le> d" and d1: "d < 1" unfolding d_def f_def by linarith+
  have x: "x = of_int f + d" unfolding d_def by simp
  have r: "r = (if d < 1 / 2 then f else if 1 / 2 < d then f + 1 else if even f then f else f + 1)"
    unfolding r_def round_half_even_def Let_def d_def f_def ..
  consider "d < 1 / 2" | "1 / 2 < d" | "d = 1 / 2" by linarith
  then have "\<bar>of_int r - (of_int f + d)\<bar> \<le> 1 / 2"
  proof cases
    case 1
    then have "r = f" unfolding r by simp
    then show ?thesis using 1 d0 by simp
  next
    case 2
    then have "r = f + 1" unfolding r by simp
    then show ?thesis using 2 d1 by simp
  next
    case 3
    then have "r = f \<or> r = f + 1" unfolding r by simp
    then show ?thesis using 3 by auto
  qed
  then show ?thesis unfolding r_def x [symmetric] .
qed

lemma dot_not_in_str_int: "CHR ''.'' \<notin> set (py_str_int i)"
proof
  assume "CHR ''.'' \<in> set (py_str_int i)"
  then have "CHR ''.'' = CHR ''-'' \<or> (\<exists>n. CHR ''.'' \<in> set (str_nat n))"
    by (auto simp: py_str_int_def split: if_splits)
  then obtain n where "CHR ''.'' \<in> set (str_nat n)" by auto
  then have "digit_of (CHR ''.'') \<noteq> None" by (rule str_nat_all_digits)
  then show False by (simp add: digit_of_def)
qed

subsection \<open>The flight time text and the values computed from it\<close>

lemma flight_time_ok:
  assumes "headwind < speed"
  shows "calculate_flight_time distance speed headwind =
           py_str_int (py_int (distance / (speed - headwind))) @ '' hours ''
             @ py_str_int (py_int ((distance / (speed - headwind)
                                      - of_int (py_int (distance / (speed - headwind)))) * 60))
             @ '' minutes''"
  using assms by (simp add: calculate_flight_time_def Let_def)

lemma flight_time_error:
  "speed \<le> headwind \<Longrightarrow> calculate_flight_time distance speed headwind = ''Error: Headwind too strong!''"
  by (simp add: calculate_flight_time_def)

lemma flight_time_ok_no_Error:
  "headwind < speed \<Longrightarrow> \<not> py_in ''Error'' (calculate_flight_time distance speed headwind)"
  by (simp only: flight_time_ok flight_time_no_Error not_False_eq_True)

lemma calculations_ok:
  assumes "headwind < of_int (cruise_speed a)"
  shows "flight_plan_calculations a distance headwind fuel_price =
           Inr \<lparr>flight_time = calculate_flight_time distance (of_int (cruise_speed a)) headwind,
                fuel_needed = (of_int (py_int (distance / (of_int (cruise_speed a) - headwind))) + 1)
                                * fuel_burn a,
                fuel_check = check_fuel_sufficiency a
                   ((of_int (py_int (distance / (of_int (cruise_speed a) - headwind))) + 1)
                                * fuel_burn a),
                cost = (of_int (py_int (distance / (of_int (cruise_speed a) - headwind))) + 1)
                                * fuel_burn a * fuel_price\<rparr>"
proof -
  have ne: "\<not> py_in ''Error'' (calculate_flight_time distance (of_int (cruise_speed a)) headwind)"
    using assms by (rule flight_time_ok_no_Error)
  have sp: "py_split (calculate_flight_time distance (of_int (cruise_speed a)) headwind)
              = [py_str_int (py_int (distance / (of_int (cruise_speed a) - headwind))), ''hours'',
                 py_str_int (py_int ((distance / (of_int (cruise_speed a) - headwind)
                    - of_int (py_int (distance / (of_int (cruise_speed a) - headwind)))) * 60)),
                 ''minutes'']"
    by (simp only: flight_time_ok [OF assms] split_flight_time)
  show ?thesis
    unfolding flight_plan_calculations_def Let_def
    by (simp only: ne sp if_True not_False_eq_True py_index_def py_float_str_int
          calculate_fuel_needed_def calculate_cost_def)
       (simp add: py_float_str_int)
qed

lemma calculations_error:
  assumes "of_int (cruise_speed a) \<le> headwind"
  shows "flight_plan_calculations a distance headwind fuel_price =
           Inr \<lparr>flight_time = ''Error: Headwind too strong!'', fuel_needed = 0,
                fuel_check = ''N/A'', cost = 0\<rparr>"
  by (simp add: flight_plan_calculations_def flight_time_error [OF assms])


lemma str_int_0: "py_str_int 0 = ''0''"
  by code_simp

lemma display_found:
  assumes "map_of aircraft_db (py_upper typed) = Some a"
    and "flight_plan_calculations a distance headwind fuel_price = Inr v"
  shows "display_flight_plan repr typed (Some (distance, headwind, fuel_price)) =
           Inr ([''=== Flight Plan Assistant ==='' @ [CHR 0x0A], ''Available Aircraft:'',
                 ''  C172: Cessna 172'', ''  PA28: Piper Cherokee'', ''  SR22: Cirrus SR22'',
                 CHR 0x0A # ''Selected: '' @ name a]
                @ summary_lines repr a distance v @ [wind_remark headwind])"
proof -
  have listing: "map (\<lambda>(code, plane). ''  '' @ code @ '': '' @ name plane) aircraft_db
                   = [''  C172: Cessna 172'', ''  PA28: Piper Cherokee'', ''  SR22: Cirrus SR22'']"
    by (simp add: aircraft_db_def C172_def PA28_def SR22_def)
  show ?thesis
    unfolding display_flight_plan_def Let_def listing by (simp add: assms)
qed

lemma calculations_total: "\<exists>v. flight_plan_calculations a distance headwind fuel_price = Inr v"
proof (cases "headwind < of_int (cruise_speed a)")
  case True
  then show ?thesis by (simp add: calculations_ok)
next
  case False
  then have "of_int (cruise_speed a) \<le> headwind" by simp
  then show ?thesis by (simp add: calculations_error)
qed

lemma format_zero: "format_f 1 0 = ''0.0''" "format_f (Suc 0) 0 = ''0.0''" "format_f 2 0 = ''0.00''"
  by code_simp+

lemma flight_time_ok_not_error:
  assumes "headwind < speed"
  shows "calculate_flight_time distance speed headwind \<noteq> ''Error: Headwind too strong!''"
proof
  assume e: "calculate_flight_time distance speed headwind = ''Error: Headwind too strong!''"
  from assms have "\<not> py_in ''Error'' (calculate_flight_time distance speed headwind)"
    by (rule flight_time_ok_no_Error)
  then show False unfolding e by simp
qed





subsection \<open>Flight math\<close>

text \<open>
  Claim C3. For every distance, cruise speed and headwind, \<^verbatim>\<open>calculate_flight_time\<close>
  returns its failure text "Error: Headwind too strong!" if and only if the headwind is at
  least the cruise speed, that is, the effective speed is zero or negative.
\<close>

theorem flight_time_fails_iff:
  "(calculate_flight_time distance speed headwind = ''Error: Headwind too strong!''
      \<longleftrightarrow> speed \<le> headwind)
   \<and> (calculate_flight_time distance speed headwind = ''Error: Headwind too strong!''
      \<longleftrightarrow> speed - headwind \<le> 0)"
proof -
  have "calculate_flight_time distance speed headwind = ''Error: Headwind too strong!''
          \<longleftrightarrow> speed \<le> headwind"
  proof
    assume e: "calculate_flight_time distance speed headwind = ''Error: Headwind too strong!''"
    show "speed \<le> headwind"
    proof (rule ccontr)
      assume "\<not> speed \<le> headwind"
      then have "headwind < speed" by simp
      then have "calculate_flight_time distance speed headwind
                   \<noteq> ''Error: Headwind too strong!''"
        by (rule flight_time_ok_not_error)
      with e show False by simp
    qed
  next
    assume "speed \<le> headwind"
    then show "calculate_flight_time distance speed headwind = ''Error: Headwind too strong!''"
      by (rule flight_time_error)
  qed
  then show ?thesis by simp
qed



text \<open>
  Claim C6. For every aircraft and every amount of fuel needed, \<^verbatim>\<open>check_fuel_sufficiency\<close>
  answers with its "Fuel OK" message if and only if the fuel needed is at most the maximum
  fuel of the aircraft, and with its "Fuel warning" message otherwise. When the two amounts
  are equal the answer is "Fuel OK".
\<close>

theorem fuel_ok_iff:
  "(take 8 (check_fuel_sufficiency a fuel) = ''Fuel OK:'' \<longleftrightarrow> fuel \<le> of_int (max_fuel a))
   \<and> (take 13 (check_fuel_sufficiency a fuel) = ''Fuel warning:''
        \<longleftrightarrow> of_int (max_fuel a) < fuel)
   \<and> take 8 (check_fuel_sufficiency a (of_int (max_fuel a))) = ''Fuel OK:''"
  by (simp add: check_fuel_sufficiency_def)

text \<open>
  Claim C2, as stated: for every aircraft and every amount of fuel needed, the message of
  \<^verbatim>\<open>check_fuel_sufficiency\<close> reports both the fuel needed and the maximum fuel formatted
  to one decimal place. The code formats only the fuel needed with \<^verbatim>\<open>:.1f\<close>; the maximum
  fuel is written with \<^verbatim>\<open>{max_fuel}\<close>, and the database holds it as an \<^verbatim>\<open>int\<close>. For the
  Cessna 172 and 29.75 gallons the message ends in "56 gal capacity", and the text "56.0"
  does not occur in it.
\<close>

theorem fuel_message_one_decimal_counterexample:
  "check_fuel_sufficiency C172 (119 / 4) = ''Fuel OK: 29.8 gal needed, 56 gal capacity''
   \<and> format_f 1 (of_int (max_fuel C172)) = ''56.0''
   \<and> \<not> py_in (format_f 1 (of_int (max_fuel C172))) (check_fuel_sufficiency C172 (119 / 4))"
  by code_simp

text \<open>
  Claim C2, amended. For every aircraft and every amount of fuel needed, in the ok and in
  the not-ok case alike, the message reports the fuel needed to one decimal place (a minus
  sign when negative, the digits of the whole part, a point and exactly one digit, the value
  being the fuel needed rounded to the nearest tenth) and the maximum fuel as the plain
  decimal text of the integer held in the database, which has no point.
\<close>

theorem fuel_message_format:
  "check_fuel_sufficiency a fuel =
     (if fuel \<le> of_int (max_fuel a) then ''Fuel OK: '' else ''Fuel warning: '')
     @ (if fuel < 0 then ''-'' else [])
     @ str_nat (nat (round_half_even (\<bar>fuel\<bar> * 10)) div 10) @ ''.''
     @ [digit_char (nat (round_half_even (\<bar>fuel\<bar> * 10)) mod 10)]
     @ (if fuel \<le> of_int (max_fuel a) then '' gal needed, '' else '' gal needed, but only '')
     @ py_str_int (max_fuel a) @ '' gal capacity''
   \<and> \<bar>of_int (round_half_even (\<bar>fuel\<bar> * 10)) - \<bar>fuel\<bar> * 10\<bar> \<le> 1 / 2
   \<and> CHR ''.'' \<notin> set (str_nat (nat (round_half_even (\<bar>fuel\<bar> * 10)) div 10))
   \<and> CHR ''.'' \<notin> set (py_str_int (max_fuel a))"
proof (intro conjI)
  show "check_fuel_sufficiency a fuel =
     (if fuel \<le> of_int (max_fuel a) then ''Fuel OK: '' else ''Fuel warning: '')
     @ (if fuel < 0 then ''-'' else [])
     @ str_nat (nat (round_half_even (\<bar>fuel\<bar> * 10)) div 10) @ ''.''
     @ [digit_char (nat (round_half_even (\<bar>fuel\<bar> * 10)) mod 10)]
     @ (if fuel \<le> of_int (max_fuel a) then '' gal needed, '' else '' gal needed, but only '')
     @ py_str_int (max_fuel a) @ '' gal capacity''"
    unfolding check_fuel_sufficiency_def format_1f_shape by simp
  show "\<bar>of_int (round_half_even (\<bar>fuel\<bar> * 10)) - \<bar>fuel\<bar> * 10\<bar> \<le> 1 / 2"
    by (rule round_half_even_near)
  show "CHR ''.'' \<notin> set (str_nat (nat (round_half_even (\<bar>fuel\<bar> * 10)) div 10))"
  proof
    assume "CHR ''.'' \<in> set (str_nat (nat (round_half_even (\<bar>fuel\<bar> * 10)) div 10))"
    then have "digit_of (CHR ''.'') \<noteq> None" by (rule str_nat_all_digits)
    then show False by (simp add: digit_of_def)
  qed
  show "CHR ''.'' \<notin> set (py_str_int (max_fuel a))"
    by (rule dot_not_in_str_int)
qed

theorem fuel_message_format_witness:
  "check_fuel_sufficiency C172 (119 / 4) = ''Fuel OK: 29.8 gal needed, 56 gal capacity''"
proof -
  note fuel_message_format [of C172 "119 / 4", THEN conjunct1]
  also have "(if (119 / 4 :: rat) \<le> of_int (max_fuel C172) then ''Fuel OK: '' else ''Fuel warning: '')
     @ (if (119 / 4 :: rat) < 0 then ''-'' else [])
     @ str_nat (nat (round_half_even (\<bar>119 / 4\<bar> * 10)) div 10) @ ''.''
     @ [digit_char (nat (round_half_even (\<bar>119 / 4\<bar> * 10)) mod 10)]
     @ (if (119 / 4 :: rat) \<le> of_int (max_fuel C172) then '' gal needed, ''
        else '' gal needed, but only '')
     @ py_str_int (max_fuel C172) @ '' gal capacity''
     = ''Fuel OK: 29.8 gal needed, 56 gal capacity''"
    by code_simp
  finally show ?thesis .
qed

subsection \<open>The flight plan report\<close>

text \<open>
  Claim C1. The scenario of the Cessna 172 (cruise speed 120, fuel burn 8.5, capacity 56),
  distance 300, no headwind, fuel at 6.50 a gallon. The report computes the flight time
  2 hours 30 minutes and a fuel check that is ok, but it reads only the hours back from the
  flight time text: the fuel is (2 + 1.0) * 8.5 = 25.5 gallons and the cost 165.75, where
  the claim has (2.5 + 1.0) * 8.5 = 29.75 gallons and 193.375.
\<close>

theorem report_scenario_C172_300:
  "flight_plan_calculations C172 300 0 (13 / 2) =
     Inr \<lparr>flight_time = ''2 hours 30 minutes'', fuel_needed = 51 / 2,
          fuel_check = ''Fuel OK: 25.5 gal needed, 56 gal capacity'', cost = 663 / 4\<rparr>"
  by code_simp

text \<open>
  Claim C7. For every cruise speed and headwind with a positive effective speed, the
  distance 0 gives the successful flight time "0 hours 0 minutes", not the failure text;
  and the fuel needed that the flight plan report computes for such a flight is 1.0, the
  reserve, times the fuel burn of the aircraft.
\<close>

theorem zero_distance:
  "(headwind < speed \<longrightarrow> calculate_flight_time 0 speed headwind = ''0 hours 0 minutes'')
   \<and> (headwind < of_int (cruise_speed a) \<longrightarrow>
        flight_plan_calculations a 0 headwind fuel_price =
          Inr \<lparr>flight_time = ''0 hours 0 minutes'', fuel_needed = 1 * fuel_burn a,
               fuel_check = check_fuel_sufficiency a (1 * fuel_burn a),
               cost = 1 * fuel_burn a * fuel_price\<rparr>)"
proof (intro conjI impI)
  have z: "py_int 0 = 0" by (simp add: py_int_def)
  show ft: "calculate_flight_time 0 speed headwind = ''0 hours 0 minutes''"
    if "headwind < speed" for speed
    unfolding flight_time_ok [OF that] by (simp add: z str_int_0)
  assume a: "headwind < of_int (cruise_speed a)"
  show "flight_plan_calculations a 0 headwind fuel_price =
          Inr \<lparr>flight_time = ''0 hours 0 minutes'', fuel_needed = 1 * fuel_burn a,
               fuel_check = check_fuel_sufficiency a (1 * fuel_burn a),
               cost = 1 * fuel_burn a * fuel_price\<rparr>"
    unfolding calculations_ok [OF a] ft [OF a] by (simp add: z)
qed

theorem zero_distance_witness:
  "calculate_flight_time 0 120 0 = ''0 hours 0 minutes''
   \<and> flight_plan_calculations C172 0 0 (13 / 2) =
       Inr \<lparr>flight_time = ''0 hours 0 minutes'', fuel_needed = 17 / 2,
            fuel_check = ''Fuel OK: 8.5 gal needed, 56 gal capacity'', cost = 221 / 4\<rparr>"
proof -
  have c: "check_fuel_sufficiency C172 (17 / 2) = ''Fuel OK: 8.5 gal needed, 56 gal capacity''"
    by code_simp
  have b: "fuel_burn C172 = 17 / 2" "cruise_speed C172 = 120" by (simp_all add: C172_def)
  show ?thesis
    using zero_distance [of 0 120 C172 "13 / 2"] by (simp add: b c)
qed

text \<open>
  Claim C5. When the flight time computation fails because the headwind is too strong, the
  flight plan report does not stop: the values it computes are the failure text as flight
  time, fuel needed 0, fuel check "N/A" and cost 0, and it prints the whole summary with
  them, followed by the remark on the wind.
\<close>

theorem report_headwind_too_strong:
  assumes "map_of aircraft_db (py_upper typed) = Some a"
    and "of_int (cruise_speed a) \<le> headwind"
  shows "flight_plan_calculations a distance headwind fuel_price =
           Inr \<lparr>flight_time = ''Error: Headwind too strong!'', fuel_needed = 0,
                fuel_check = ''N/A'', cost = 0\<rparr>
         \<and> display_flight_plan repr typed (Some (distance, headwind, fuel_price)) =
             Inr [''=== Flight Plan Assistant ==='' @ [CHR 0x0A], ''Available Aircraft:'',
                  ''  C172: Cessna 172'', ''  PA28: Piper Cherokee'', ''  SR22: Cirrus SR22'',
                  CHR 0x0A # ''Selected: '' @ name a,
                  CHR 0x0A # replicate 40 (CHR ''=''),
                  ''FLIGHT PLAN SUMMARY'',
                  replicate 40 (CHR ''=''),
                  ''Aircraft: '' @ name a,
                  ''Distance: '' @ repr distance @ '' nautical miles'',
                  ''Flight Time: Error: Headwind too strong!'',
                  ''Fuel Required: 0.0 gallons'',
                  ''Fuel Check: N/A'',
                  ''Estimated Cost: $0.00'',
                  wind_remark headwind]"
proof -
  have c: "flight_plan_calculations a distance headwind fuel_price =
             Inr \<lparr>flight_time = ''Error: Headwind too strong!'', fuel_needed = 0,
                  fuel_check = ''N/A'', cost = 0\<rparr>"
    using assms(2) by (rule calculations_error)
  show ?thesis
    unfolding display_found [OF assms(1) c] summary_lines_def
    by (simp add: c format_zero)
qed

theorem report_headwind_too_strong_witness:
  "map_of aircraft_db (py_upper ''c172'') = Some C172
   \<and> rat_of_int (cruise_speed C172) \<le> 130
   \<and> display_flight_plan (\<lambda>d. ''300.0'') ''c172'' (Some (300, 130, 13 / 2)) =
       Inr [''=== Flight Plan Assistant ==='' @ [CHR 0x0A], ''Available Aircraft:'',
            ''  C172: Cessna 172'', ''  PA28: Piper Cherokee'', ''  SR22: Cirrus SR22'',
            CHR 0x0A # ''Selected: Cessna 172'',
            CHR 0x0A # ''========================================'',
            ''FLIGHT PLAN SUMMARY'',
            ''========================================'',
            ''Aircraft: Cessna 172'',
            ''Distance: 300.0 nautical miles'',
            ''Flight Time: Error: Headwind too strong!'',
            ''Fuel Required: 0.0 gallons'',
            ''Fuel Check: N/A'',
            ''Estimated Cost: $0.00'',
            CHR 0x0A # ''Strong headwind - consider delaying if possible'']"
proof -
  have f: "map_of aircraft_db (py_upper ''c172'') = Some C172" by code_simp
  have s: "rat_of_int (cruise_speed C172) \<le> 130" by (simp add: C172_def)
  have n: "name C172 = ''Cessna 172''" by (simp add: C172_def)
  have w: "wind_remark 130 = CHR 0x0A # ''Strong headwind - consider delaying if possible''"
    by (simp add: wind_remark_def)
  have r: "replicate 40 (CHR ''='') = ''========================================''"
    by code_simp
  show ?thesis
    using report_headwind_too_strong [OF f s, of 300 "13 / 2" "\<lambda>d. ''300.0''"] f s
    by (simp add: n w r)
qed

text \<open>
  Claim C8. The remark on the wind is the caution note exactly when the headwind is above
  20, the favorable note exactly when it is below -10, and the neutral note exactly when it
  lies between -10 and 20, both bounds included. It is the last line that the flight plan
  report prints whenever the aircraft is found and the three numbers are read.
\<close>

theorem wind_remark_thresholds:
  "(wind_remark headwind = CHR 0x0A # ''Strong headwind - consider delaying if possible''
      \<longleftrightarrow> 20 < headwind)
   \<and> (wind_remark headwind = CHR 0x0A # ''Favorable tailwind - good flying conditions!''
      \<longleftrightarrow> headwind < - 10)
   \<and> (wind_remark headwind = CHR 0x0A # ''Normal wind conditions''
      \<longleftrightarrow> - 10 \<le> headwind \<and> headwind \<le> 20)
   \<and> (map_of aircraft_db (py_upper typed) = Some a \<longrightarrow>
        (\<exists>out. display_flight_plan repr typed (Some (distance, headwind, fuel_price)) = Inr out
               \<and> last out = wind_remark headwind))"
proof (intro conjI impI)
  assume f: "map_of aircraft_db (py_upper typed) = Some a"
  from calculations_total [of a distance headwind fuel_price]
  obtain v where "flight_plan_calculations a distance headwind fuel_price = Inr v"
    by (rule exE)
  from display_found [OF f this]
  show "\<exists>out. display_flight_plan repr typed (Some (distance, headwind, fuel_price)) = Inr out
               \<and> last out = wind_remark headwind"
    by simp
qed (auto simp: wind_remark_def)

theorem wind_remark_thresholds_witness:
  "map_of aircraft_db (py_upper ''c172'') = Some C172
   \<and> wind_remark 20 = CHR 0x0A # ''Normal wind conditions''
   \<and> wind_remark (- 10) = CHR 0x0A # ''Normal wind conditions''
   \<and> (\<exists>out. display_flight_plan (\<lambda>d. ''300.0'') ''c172'' (Some (300, 25, 13 / 2)) = Inr out
          \<and> last out = CHR 0x0A # ''Strong headwind - consider delaying if possible'')"
proof -
  have f: "map_of aircraft_db (py_upper ''c172'') = Some C172" by code_simp
  have w: "wind_remark 25 = CHR 0x0A # ''Strong headwind - consider delaying if possible''"
    using wind_remark_thresholds [of 25] by simp
  have 1: "wind_remark 20 = CHR 0x0A # ''Normal wind conditions''"
    using wind_remark_thresholds [of 20] by simp
  have 2: "wind_remark (- 10) = CHR 0x0A # ''Normal wind conditions''"
    using wind_remark_thresholds [of "- 10"] by simp
  have "\<exists>out. display_flight_plan (\<lambda>d. ''300.0'') ''c172'' (Some (300, 25, 13 / 2)) = Inr out
          \<and> last out = wind_remark 25"
    by (rule wind_remark_thresholds [of 25 "''c172''" C172 "\<lambda>d. ''300.0''" 300 "13 / 2",
          THEN conjunct2, THEN conjunct2, THEN conjunct2, THEN mp, OF f])
  then have 3: "\<exists>out. display_flight_plan (\<lambda>d. ''300.0'') ''c172'' (Some (300, 25, 13 / 2)) = Inr out
          \<and> last out = CHR 0x0A # ''Strong headwind - consider delaying if possible''"
    unfolding w .
  from f 1 2 3 show ?thesis by (intro conjI)
qed

subsection \<open>The fuel computed by the two reports\<close>




subsection \<open>The aircraft comparison report\<close>



end
